theory Spec2Isabelle
  imports Complex_Main
begin

section \<open>Go strings and the library functions the code calls\<close>

text \<open>
  A Go \<open>string\<close> is a sequence of bytes and is modelled as a \<open>char list\<close>; indexing and
  lengths count bytes, as in Go. The functions of this section stand for functions of
  Go's standard library (\<open>strings\<close>, \<open>strconv\<close>, \<open>regexp\<close>), which are not part of the
  repository. They are modelled on ASCII text: \<open>TrimSpace\<close> removes the six ASCII white
  space bytes and \<open>ToLower\<close> maps \<open>A-Z\<close>; bytes above 0x7F are left alone.
\<close>

definition isDigit :: "char \<Rightarrow> bool" where
  "isDigit c \<longleftrightarrow> (48::nat) \<le> of_char c \<and> (of_char c :: nat) \<le> 57"

definition isUpper :: "char \<Rightarrow> bool" where
  "isUpper c \<longleftrightarrow> (65::nat) \<le> of_char c \<and> (of_char c :: nat) \<le> 90"

definition isLower :: "char \<Rightarrow> bool" where
  "isLower c \<longleftrightarrow> (97::nat) \<le> of_char c \<and> (of_char c :: nat) \<le> 122"

text \<open>The white space of \<open>strings.TrimSpace\<close>: tab, line feed, vertical tab, form feed,
  carriage return and space.\<close>

definition asciiSpace :: "char \<Rightarrow> bool" where
  "asciiSpace c \<longleftrightarrow> c \<in> set [CHR 0x09, CHR 0x0A, CHR 0x0B, CHR 0x0C, CHR 0x0D, CHR 0x20]"

definition TrimRight :: "string \<Rightarrow> string" where
  "TrimRight s = rev (dropWhile asciiSpace (rev s))"

definition TrimSpace :: "string \<Rightarrow> string" where
  "TrimSpace s = TrimRight (dropWhile asciiSpace s)"

definition toLowerChar :: "char \<Rightarrow> char" where
  "toLowerChar c = (if isUpper c then char_of ((of_char c :: nat) + 32) else c)"

definition ToLower :: "string \<Rightarrow> string" where
  "ToLower s = map toLowerChar s"

definition HasPrefix :: "string \<Rightarrow> string \<Rightarrow> bool" where
  "HasPrefix s p \<longleftrightarrow> take (length p) s = p"

definition HasSuffix :: "string \<Rightarrow> string \<Rightarrow> bool" where
  "HasSuffix s p \<longleftrightarrow> length p \<le> length s \<and> drop (length s - length p) s = p"

fun Contains :: "string \<Rightarrow> string \<Rightarrow> bool" where
  "Contains [] sub = (sub = [])"
| "Contains (c # cs) sub = (HasPrefix (c # cs) sub \<or> Contains cs sub)"

text \<open>\<open>strings.Join\<close>.\<close>

fun Join :: "string list \<Rightarrow> string \<Rightarrow> string" where
  "Join [] sep = []"
| "Join [x] sep = x"
| "Join (x # y # ys) sep = x @ sep @ Join (y # ys) sep"

subsection \<open>Decimal digits\<close>

definition digitVal :: "char \<Rightarrow> nat" where
  "digitVal c = of_char c - 48"

definition decVal :: "string \<Rightarrow> nat" where
  "decVal ds = foldl (\<lambda>a c. 10 * a + digitVal c) 0 ds"

definition digitChar :: "nat \<Rightarrow> char" where
  "digitChar d = char_of (48 + d)"

text \<open>The decimal digits of a natural number, most significant first (\<open>strconv.Itoa\<close>
  and the verb \<open>%d\<close> on a value that is not negative).\<close>

fun natDigits :: "nat \<Rightarrow> string" where
  "natDigits n = (if n < 10 then [digitChar n] else natDigits (n div 10) @ [digitChar (n mod 10)])"

declare natDigits.simps [simp del]

definition Itoa :: "int \<Rightarrow> string" where
  "Itoa i = (if i < 0 then CHR ''-'' # natDigits (nat (- i)) else natDigits (nat i))"

subsection \<open>Floating point values\<close>

text \<open>
  A \<open>float64\<close> is idealised as an exact rational number: the model has no rounding, no
  infinities and no NaN. \<open>ParseFloat\<close> stands for \<open>strconv.ParseFloat(s, 64)\<close> on Go's
  decimal syntax: an optional sign, digits with an optional decimal point (at least one
  digit on either side), an optional exponent, and nothing after it. \<open>None\<close> is the
  syntax error.
\<close>

type_synonym float64 = rat

definition readSign :: "string \<Rightarrow> bool \<times> string" where
  "readSign s = (case s of
       [] \<Rightarrow> (False, s)
     | c # t \<Rightarrow> if c = CHR ''+'' then (False, t) else if c = CHR ''-'' then (True, t) else (False, s))"

definition readExponent :: "string \<Rightarrow> int option" where
  "readExponent s = (case s of
       [] \<Rightarrow> Some 0
     | c # t \<Rightarrow>
         if c = CHR ''e'' \<or> c = CHR ''E'' then
           (let (eneg, ds) = readSign t in
            if ds \<noteq> [] \<and> list_all isDigit ds
            then Some (if eneg then - int (decVal ds) else int (decVal ds))
            else None)
         else None)"

definition scale10 :: "float64 \<Rightarrow> int \<Rightarrow> float64" where
  "scale10 m e = (if e < 0 then m / 10 ^ nat (- e) else m * 10 ^ nat e)"

definition ParseFloat :: "string \<Rightarrow> float64 option" where
  "ParseFloat s =
     (let (neg, r0) = readSign s;
          ip = takeWhile isDigit r0;
          r1 = dropWhile isDigit r0;
          (fp, r2) = (case r1 of
                        [] \<Rightarrow> ([], r1)
                      | c # t \<Rightarrow> if c = CHR ''.'' then (takeWhile isDigit t, dropWhile isDigit t)
                                 else ([], r1));
          mant = of_nat (decVal (ip @ fp)) / 10 ^ length fp
      in if ip = [] \<and> fp = [] then None
         else case readExponent r2 of
                None \<Rightarrow> None
              | Some e \<Rightarrow> Some (if neg then - scale10 mant e else scale10 mant e))"

subsection \<open>The two regular expressions of the number normalizer\<close>

text \<open>
  \<open>fractionRe\<close> is \<open>FindStringSubmatch\<close> of \<open>^(\d+)/(\d+)\<close>: the two groups of the match.
  \<open>\d\<close> is an ASCII digit and \<open>\d+\<close> is greedy; as \<open>/\<close> is no digit, the greedy reading is
  the only one.
\<close>

definition fractionRe :: "string \<Rightarrow> (string \<times> string) option" where
  "fractionRe text =
     (let n = takeWhile isDigit text in
      if n = [] then None
      else case dropWhile isDigit text of
             [] \<Rightarrow> None
           | c # t \<Rightarrow>
               if c = CHR ''/'' \<and> takeWhile isDigit t \<noteq> [] then Some (n, takeWhile isDigit t)
               else None)"

text \<open>
  \<open>decimalRe\<close> is \<open>FindStringSubmatch\<close> of \<open>^(\d+\.?\d*|\d*\.\d+)\<close>: the first group.
  The first alternative is preferred and matches whenever the text starts with a digit;
  the second one needs a point followed by a digit.
\<close>

definition decimalRe :: "string \<Rightarrow> string option" where
  "decimalRe text =
     (let n = takeWhile isDigit text; r = dropWhile isDigit text in
      if n \<noteq> [] then
        (case r of
           [] \<Rightarrow> Some n
         | c # t \<Rightarrow> if c = CHR ''.'' then Some (n @ [c] @ takeWhile isDigit t) else Some n)
      else
        (case r of
           [] \<Rightarrow> None
         | c # t \<Rightarrow> if c = CHR ''.'' \<and> takeWhile isDigit t \<noteq> []
                    then Some (c # takeWhile isDigit t) else None))"

section \<open>The number normalizer\<close>

text \<open>
  A value of Go's type \<open>any\<close> as \<open>encoding/json\<close> produces it (\<open>nil\<close>, \<open>float64\<close>,
  \<open>string\<close>, \<open>bool\<close>, a slice, a map), and the two integer types that
  \<open>parseNumberField\<close> also accepts from Go callers.
\<close>

datatype any = ANil | AFloat64 float64 | AInt int | AInt64 int | AString string
  | ABool bool | ASlice | AMap

text \<open>The name the verb \<open>%T\<close> prints for a value.\<close>

fun typeName :: "any \<Rightarrow> string" where
  "typeName ANil = ''<nil>''"
| "typeName (AFloat64 v) = ''float64''"
| "typeName (AInt v) = ''int''"
| "typeName (AInt64 v) = ''int64''"
| "typeName (AString s) = ''string''"
| "typeName (ABool b) = ''bool''"
| "typeName ASlice = ''[]interface {}''"
| "typeName AMap = ''map[string]interface {}''"

text \<open>
  The errors of the meal tool. Each constructor stands for one \<open>fmt.Errorf\<close> of the
  source and carries the values its message prints:
  \<^item> \<open>FieldRequired f\<close>: "f is required";
  \<^item> \<open>FieldEmpty f\<close>: "f cannot be empty";
  \<^item> \<open>NotANumber f v\<close>: "f must be a number, got: v";
  \<^item> \<open>WrongType f t\<close>: "f must be a number, got type: t";
  \<^item> \<open>NameMissing\<close>: "food item must have a name";
  \<^item> \<open>CaloriesMissing\<close>: "calories must be specified";
  \<^item> \<open>InvalidMealType m\<close>: "invalid or missing meal type. ... Got: m";
  \<^item> \<open>NoFoodItems\<close>: "no food items found. Please provide at least one food item";
  \<^item> \<open>ItemError i name e\<close>: "error parsing food item i (name): e";
  \<^item> \<open>CalorieMismatch c e\<close>: "calorie mismatch: calculated c calories but expected e calories";
  \<^item> \<open>LogFailed e\<close>: "failed to log meal to Fitbit: e".
\<close>

datatype error =
    FieldRequired string
  | FieldEmpty string
  | NotANumber string string
  | WrongType string string
  | NameMissing
  | CaloriesMissing
  | InvalidMealType string
  | NoFoodItems
  | ItemError nat string error
  | CalorieMismatch float64 float64
  | LogFailed string

text \<open>The map literal \<open>wordNumbers\<close>; its keys are distinct, so \<open>map_of\<close> is the lookup.\<close>

definition wordNumbers :: "(string \<times> float64) list" where
  "wordNumbers =
     [(''zero'', 0), (''one'', 1), (''two'', 2), (''three'', 3), (''four'', 4), (''five'', 5),
      (''six'', 6), (''seven'', 7), (''eight'', 8), (''nine'', 9), (''ten'', 10),
      (''half'', 1/2), (''quarter'', 1/4), (''third'', 33/100), (''couple'', 2), (''few'', 3),
      (''dozen'', 12), (''pair'', 2), (''single'', 1)]"

text \<open>The fraction branch of \<open>extractNumberFromText\<close>: the value it returns, if it returns.\<close>

definition fractionValue :: "string \<Rightarrow> float64 option" where
  "fractionValue text =
     (case fractionRe text of
        None \<Rightarrow> None
      | Some (n, d) \<Rightarrow>
          (case ParseFloat n of
             None \<Rightarrow> None
           | Some num \<Rightarrow>
               (case ParseFloat d of
                  None \<Rightarrow> None
                | Some denom \<Rightarrow> if denom \<noteq> 0 then Some (num / denom) else None)))"

text \<open>The last branch: the number at the beginning of the string.\<close>

definition leadingValue :: "string \<Rightarrow> float64 option" where
  "leadingValue text = (case decimalRe text of None \<Rightarrow> None | Some m \<Rightarrow> ParseFloat m)"

definition extractNumberFromText :: "string \<Rightarrow> float64" where
  "extractNumberFromText text0 =
     (let text = TrimSpace (ToLower text0) in
      case map_of wordNumbers text of
        Some num \<Rightarrow> num
      | None \<Rightarrow>
          (case fractionValue text of
             Some q \<Rightarrow> q
           | None \<Rightarrow> (case leadingValue text of Some num \<Rightarrow> num | None \<Rightarrow> 0)))"

fun parseNumberField :: "any \<Rightarrow> string \<Rightarrow> error + float64" where
  "parseNumberField ANil fieldName = Inl (FieldRequired fieldName)"
| "parseNumberField (AFloat64 v) fieldName = Inr v"
| "parseNumberField (AInt v) fieldName = Inr (of_int v)"
| "parseNumberField (AInt64 v) fieldName = Inr (of_int v)"
| "parseNumberField (AString s) fieldName =
     (let v = TrimSpace s in
      if v = [] then Inl (FieldEmpty fieldName)
      else case ParseFloat v of
             Some num \<Rightarrow> Inr num
           | None \<Rightarrow>
               (let v = ToLower v; num = extractNumberFromText v in
                if num > 0 then Inr num else Inl (NotANumber fieldName v)))"
| "parseNumberField (ABool b) fieldName = Inl (WrongType fieldName (typeName (ABool b)))"
| "parseNumberField ASlice fieldName = Inl (WrongType fieldName (typeName ASlice))"
| "parseNumberField AMap fieldName = Inl (WrongType fieldName (typeName AMap))"

section \<open>The meal input and its normalization\<close>

text \<open>
  The structs \<open>FoodItem\<close>, \<open>ParsedFoodItem\<close> and \<open>LogMealInput\<close>. The fields keep the
  names of the Go fields; those of \<open>ParsedFoodItem\<close> are prefixed, as a record field is
  a constant of the theory. A string field that the JSON leaves out is the empty string,
  an \<open>any\<close> field \<open>ANil\<close>, a list field the empty list.
\<close>

record FoodItem =
  Name :: string
  FoodItem' :: string
  Item :: string
  Food :: string
  Quantity :: any
  Amount :: any
  Serving :: any
  Count :: any
  Unit :: string
  Units :: string
  Measurement :: string
  Size :: string
  Calories :: any
  Cals :: any
  Cal :: any
  Energy :: any
  Preparation :: string
  BreadType :: string
  CookingMethod :: string

record ParsedFoodItem =
  ParsedName :: string
  ParsedQuantity :: float64
  ParsedUnit :: string
  ParsedCalories :: float64

record LogMealInput =
  MealType :: string
  Foods :: "FoodItem list"
  Toast :: "FoodItem list"
  Snacks :: "FoodItem list"
  Items :: "FoodItem list"
  FoodItems :: "FoodItem list"
  MealTime :: string
  Time :: string
  Notes :: string
  Description :: string
  TotalCalories :: any

definition normalizeMealType :: "string \<Rightarrow> string" where
  "normalizeMealType mealType =
     (let normalized = ToLower (TrimSpace mealType) in
      if normalized \<in> set [''breakfast'', ''lunch'', ''dinner'', ''snack''] then normalized
      else if normalized \<in> set [''morning'', ''am''] then ''breakfast''
      else if normalized \<in> set [''noon'', ''midday'', ''afternoon'', ''pm''] then ''lunch''
      else if normalized \<in> set [''evening'', ''night'', ''supper''] then ''dinner''
      else if normalized \<in> set [''snacking'', ''treat'', ''dessert''] then ''snack''
      else [])"

definition collectAllFoods :: "LogMealInput \<Rightarrow> FoodItem list" where
  "collectAllFoods input =
     (let allFoods = [];
          allFoods = allFoods @ Foods input;
          allFoods = allFoods @ Toast input;
          allFoods = allFoods @ Snacks input;
          allFoods = allFoods @ Items input;
          allFoods = allFoods @ FoodItems input
      in allFoods)"

text \<open>The loop shared by \<open>getAnyFoodName\<close>, \<open>getMealTime\<close> and \<open>getNotes\<close>: the first
  candidate that is not blank, trimmed, or the default.\<close>

fun firstNonBlank :: "string list \<Rightarrow> string \<Rightarrow> string" where
  "firstNonBlank [] dflt = dflt"
| "firstNonBlank (candidate # rest) dflt =
     (if TrimSpace candidate \<noteq> [] then TrimSpace candidate else firstNonBlank rest dflt)"

definition getAnyFoodName :: "FoodItem \<Rightarrow> string" where
  "getAnyFoodName food = firstNonBlank [Name food, FoodItem' food, Item food, Food food] []"

definition getMealTime :: "LogMealInput \<Rightarrow> string" where
  "getMealTime input = firstNonBlank [MealTime input, Time input] ''now''"

definition getNotes :: "LogMealInput \<Rightarrow> string" where
  "getNotes input = firstNonBlank [Notes input, Description input] []"

text \<open>The loop of \<open>getAnyQuantity\<close> over its candidates, and its default.\<close>

fun quantityLoop :: "any list \<Rightarrow> error + float64" where
  "quantityLoop [] = Inr 1"
| "quantityLoop (candidate # rest) =
     (if candidate \<noteq> ANil then
        (case parseNumberField candidate ''quantity'' of
           Inr qty \<Rightarrow> if qty > 0 then Inr qty else quantityLoop rest
         | Inl err \<Rightarrow> quantityLoop rest)
      else quantityLoop rest)"

definition getAnyQuantity :: "FoodItem \<Rightarrow> error + float64" where
  "getAnyQuantity food = quantityLoop [Quantity food, Amount food, Serving food, Count food]"

text \<open>The loop of \<open>getAnyCalories\<close> over its candidates, and its error.\<close>

fun caloriesLoop :: "any list \<Rightarrow> error + float64" where
  "caloriesLoop [] = Inl CaloriesMissing"
| "caloriesLoop (candidate # rest) =
     (if candidate \<noteq> ANil then
        (case parseNumberField candidate ''calories'' of
           Inr cal \<Rightarrow> if cal \<ge> 0 then Inr cal else caloriesLoop rest
         | Inl err \<Rightarrow> caloriesLoop rest)
      else caloriesLoop rest)"

definition getAnyCalories :: "FoodItem \<Rightarrow> error + float64" where
  "getAnyCalories food = caloriesLoop [Calories food, Cals food, Cal food, Energy food]"

definition normalizeUnit :: "string \<Rightarrow> string" where
  "normalizeUnit unit =
     (let normalized = ToLower (TrimSpace unit) in
      if normalized \<in> set [''slice'', ''slices'', ''piece'', ''pieces''] then ''slices''
      else if normalized \<in> set [''large'', ''medium'', ''small'', ''whole'', ''egg'', ''eggs'']
        then ''large''
      else if normalized \<in> set [''cup'', ''cups'', ''c''] then ''cups''
      else if normalized \<in> set [''tbsp'', ''tablespoon'', ''tablespoons''] then ''tbsp''
      else if normalized \<in> set [''tsp'', ''teaspoon'', ''teaspoons''] then ''tsp''
      else if normalized \<in> set [''oz'', ''ounce'', ''ounces''] then ''oz''
      else if normalized \<in> set [''lb'', ''pound'', ''pounds''] then ''lbs''
      else if normalized \<in> set [''g'', ''gram'', ''grams''] then ''g''
      else if normalized \<in> set [''serving'', ''servings'', ''portion'', ''portions'']
        then ''servings''
      else normalized)"

definition getDefaultUnit :: "string \<Rightarrow> string" where
  "getDefaultUnit foodName =
     (let name = ToLower foodName in
      if Contains name ''toast'' \<or> Contains name ''bread'' \<or> Contains name ''slice''
        then ''slices''
      else if Contains name ''egg'' then ''large''
      else if Contains name ''cup'' \<or> Contains name ''milk'' \<or> Contains name ''juice''
        then ''cups''
      else ''servings'')"

fun unitLoop :: "string list \<Rightarrow> string \<Rightarrow> string" where
  "unitLoop [] foodName = getDefaultUnit foodName"
| "unitLoop (candidate # rest) foodName =
     (if TrimSpace candidate \<noteq> [] then normalizeUnit (TrimSpace candidate)
      else unitLoop rest foodName)"

definition getAnyUnit :: "FoodItem \<Rightarrow> string \<Rightarrow> string" where
  "getAnyUnit food foodName = unitLoop [Unit food, Units food, Measurement food, Size food] foodName"

definition parseFoodItem :: "FoodItem \<Rightarrow> error + ParsedFoodItem" where
  "parseFoodItem food =
     (let name = getAnyFoodName food in
      if name = [] then Inl NameMissing
      else case getAnyQuantity food of
             Inl err \<Rightarrow> Inl err
           | Inr quantity \<Rightarrow>
               (case getAnyCalories food of
                  Inl err \<Rightarrow> Inl err
                | Inr calories \<Rightarrow>
                    Inr \<lparr>ParsedName = name, ParsedQuantity = quantity,
                         ParsedUnit = getAnyUnit food name, ParsedCalories = calories\<rparr>))"

text \<open>The loop of \<open>Execute\<close> over the collected items; \<open>i\<close> is the index of the first
  one. It stops at the first item that does not parse.\<close>

fun parseFoods :: "nat \<Rightarrow> FoodItem list \<Rightarrow> error + ParsedFoodItem list" where
  "parseFoods i [] = Inr []"
| "parseFoods i (food # rest) =
     (case parseFoodItem food of
        Inl err \<Rightarrow> Inl (ItemError (i + 1) (getAnyFoodName food) err)
      | Inr parsed \<Rightarrow>
          (case parseFoods (i + 1) rest of
             Inl err \<Rightarrow> Inl err
           | Inr parsedFoods \<Rightarrow> Inr (parsed # parsedFoods)))"

section \<open>Logging the meal\<close>

subsection \<open>Formatting\<close>

text \<open>
  The verbs \<open>%.0f\<close> and \<open>%.1f\<close> print a value rounded to the nearest decimal of that
  precision, a tie going to the even digit; \<open>fmtFixed p\<close> is \<open>%.pf\<close> on the idealised
  values.
\<close>

definition roundHalfEven :: "rat \<Rightarrow> int" where
  "roundHalfEven r =
     (let f = \<lfloor>r\<rfloor>; d = r - of_int f in
      if d < 1/2 then f else if d > 1/2 then f + 1 else if even f then f else f + 1)"

definition fmtFixed :: "nat \<Rightarrow> float64 \<Rightarrow> string" where
  "fmtFixed p x =
     (let n = nat (roundHalfEven (\<bar>x\<bar> * 10 ^ p));
          frac = natDigits (n mod 10 ^ p)
      in (if x < 0 then ''-'' else []) @ natDigits (n div 10 ^ p) @
         (if p = 0 then [] else ''.'' @ replicate (p - length frac) (CHR ''0'') @ frac))"

text \<open>The conversion \<open>int(quantity)\<close> drops the fraction.\<close>

definition truncInt :: "float64 \<Rightarrow> int" where
  "truncInt x = (if x < 0 then \<lceil>x\<rceil> else \<lfloor>x\<rfloor>)"

definition formatQuantity :: "float64 \<Rightarrow> string" where
  "formatQuantity quantity =
     (if quantity = of_int (truncInt quantity) then Itoa (truncInt quantity)
      else fmtFixed 1 quantity)"

subsection \<open>The environment and the remote service\<close>

text \<open>
  The process environment, as \<open>os.Getenv\<close> reads it once the configuration is loaded, is
  a function from variable names to values. The remote service is an oracle: for the
  \<open>k\<close>-th request of a call of \<open>logMealToFitbit\<close> it says whether the request could not
  be built, could not be sent, or was answered with a status code.
\<close>

type_synonym environ = "string \<Rightarrow> string"

datatype http_outcome = NewRequestError string | DoError string | StatusCode int

type_synonym remote = "nat \<Rightarrow> http_outcome"

definition isAuthenticated :: "environ \<Rightarrow> bool" where
  "isAuthenticated env \<longleftrightarrow> env ''FITBIT_ACCESS_TOKEN'' \<noteq> []"

text \<open>The loop of \<open>logMealToFitbit\<close> over the food items; the result is the text of the
  error it returns, \<open>None\<close> for \<open>nil\<close>.\<close>

fun logLoop :: "remote \<Rightarrow> nat \<Rightarrow> ParsedFoodItem list \<Rightarrow> string option" where
  "logLoop http k [] = None"
| "logLoop http k (food # rest) =
     (case http k of
        NewRequestError err \<Rightarrow>
          Some (''failed to create request for '' @ ParsedName food @ '': '' @ err)
      | DoError err \<Rightarrow> Some (''failed to log '' @ ParsedName food @ '' to Fitbit: '' @ err)
      | StatusCode code \<Rightarrow>
          if code = 401 then Some ''unauthorized: access token may be expired (401)''
          else if code < 200 \<or> code \<ge> 300
            then Some (''failed to log '' @ ParsedName food @ '': HTTP '' @ Itoa code)
          else logLoop http (k + 1) rest)"

definition logMealToFitbit ::
    "environ \<Rightarrow> remote \<Rightarrow> string \<Rightarrow> ParsedFoodItem list \<Rightarrow> LogMealInput \<Rightarrow> string option" where
  "logMealToFitbit env http mealType foods input =
     (if env ''FITBIT_ACCESS_TOKEN'' = [] then Some ''missing FITBIT_ACCESS_TOKEN''
      else if env ''FITBIT_USER_ID'' = [] then Some ''missing FITBIT_USER_ID''
      else logLoop http 0 foods)"

subsection \<open>The messages\<close>

text \<open>The pictographs that open the messages, as the bytes of the source file.\<close>

definition pictLock :: string where
  "pictLock = [CHR 0xC3, CHR 0xB0, CHR 0xC5, CHR 0xB8, CHR 0xE2, CHR 0x80, CHR 0x9D]"

definition pictCheck :: string where
  "pictCheck = [CHR 0xC3, CHR 0xA2, CHR 0xC5, CHR 0x93, CHR 0xE2, CHR 0x80, CHR 0xA6]"

definition pictHundred :: string where
  "pictHundred =
     [CHR 0xC3, CHR 0xB0, CHR 0xC5, CHR 0xB8, CHR 0xE2, CHR 0x80, CHR 0x99, CHR 0xC2, CHR 0xAF]"

definition pictParty :: string where
  "pictParty =
     [CHR 0xC3, CHR 0xB0, CHR 0xC5, CHR 0xB8, CHR 0xC5, CHR 0xBD, CHR 0xE2, CHR 0x80, CHR 0xB0]"

definition pictMemo :: string where
  "pictMemo = [CHR 0xC3, CHR 0xB0, CHR 0xC5, CHR 0xB8, CHR 0xE2, CHR 0x80, CHR 0x9C]"

definition authRequiredMessage :: string where
  "authRequiredMessage =
     pictLock @ '' Authentication Required!\<newline>\<newline>'' @
     ''To log meals to Fitbit, you need to authenticate first. Let me help you with that.'' @
     ''\<newline>\<newline>TOOL_CALL: fitbit_login({})\<newline>\<newline>'' @
     ''After authentication, I'' @ [CHR 0x27] @ ''ll log your meal automatically.''"

definition authExpiredMessage :: string where
  "authExpiredMessage =
     pictLock @ '' Authentication Expired!\<newline>\<newline>'' @
     ''Your Fitbit access token has expired. Let me help you re-authenticate.'' @
     ''\<newline>\<newline>TOOL_CALL: fitbit_login({})\<newline>\<newline>'' @
     ''After re-authentication, I'' @ [CHR 0x27] @ ''ll log your meal automatically.''"

definition foodStr :: "ParsedFoodItem \<Rightarrow> string" where
  "foodStr food =
     ''- '' @ ParsedName food @ '' ('' @ formatQuantity (ParsedQuantity food) @ '' '' @
     ParsedUnit food @ ''): ~'' @ fmtFixed 0 (ParsedCalories food) @ '' cal''"

definition successMessage ::
    "string \<Rightarrow> ParsedFoodItem list \<Rightarrow> float64 \<Rightarrow> LogMealInput \<Rightarrow> string" where
  "successMessage mealType parsedFoods totalCalories mealInput =
     (let foodList = map foodStr parsedFoods;
          mealTime = getMealTime mealInput;
          result =
            pictCheck @ '' Successfully logged '' @ mealType @ '' to Fitbit ('' @ mealTime @
            ''):\<newline>'' @ Join foodList ''\<newline>'' @ ''\<newline>\<newline>'' @
            pictHundred @ '' Total: ~'' @ fmtFixed 0 totalCalories @ '' calories\<newline>\<newline>'' @
            pictParty @ '' Meal logged to your Fitbit account! '' @
            ''Check your Fitbit app to see the nutrition data.'';
          notes = getNotes mealInput
      in if notes \<noteq> [] then result @ ''\<newline>'' @ pictMemo @ '' Notes: '' @ notes else result)"

subsection \<open>Execute\<close>

text \<open>
  \<open>Execute\<close> first decodes its argument bytes and then works on the \<open>LogMealInput\<close>.
  \<open>ExecuteDecoded\<close> is the second part, from the normalization of the meal type on; its
  result is the error or the text that the tool returns.
\<close>

definition totalOf :: "ParsedFoodItem list \<Rightarrow> float64" where
  "totalOf parsedFoods = foldl (\<lambda>totalCalories food. totalCalories + ParsedCalories food) 0 parsedFoods"

text \<open>The validation against the expected total: the error it returns, if any.\<close>

definition checkTotal :: "LogMealInput \<Rightarrow> float64 \<Rightarrow> error option" where
  "checkTotal mealInput totalCalories =
     (if TotalCalories mealInput \<noteq> ANil then
        (case parseNumberField (TotalCalories mealInput) ''total_calories'' of
           Inl err \<Rightarrow> None
         | Inr expectedTotal \<Rightarrow>
             if expectedTotal > 0 then
               (let diff = totalCalories - expectedTotal in
                if diff < - 50 \<or> diff > 50
                then Some (CalorieMismatch totalCalories expectedTotal) else None)
             else None)
      else None)"

definition ExecuteDecoded :: "environ \<Rightarrow> remote \<Rightarrow> LogMealInput \<Rightarrow> error + string" where
  "ExecuteDecoded env http mealInput =
     (let mealType = normalizeMealType (MealType mealInput) in
      if mealType = [] then Inl (InvalidMealType (MealType mealInput))
      else
        let allFoods = collectAllFoods mealInput in
        if length allFoods = 0 then Inl NoFoodItems
        else
          case parseFoods 0 allFoods of
            Inl err \<Rightarrow> Inl err
          | Inr parsedFoods \<Rightarrow>
              if \<not> isAuthenticated env then Inr authRequiredMessage
              else
                let totalCalories = totalOf parsedFoods in
                case checkTotal mealInput totalCalories of
                  Some err \<Rightarrow> Inl err
                | None \<Rightarrow>
                    (case logMealToFitbit env http mealType parsedFoods mealInput of
                       Some err \<Rightarrow>
                         if Contains err ''401'' \<or> Contains err ''unauthorized''
                         then Inr authExpiredMessage
                         else Inl (LogFailed err)
                     | None \<Rightarrow> Inr (successMessage mealType parsedFoods totalCalories mealInput)))"

section \<open>The tool-call protocol parser\<close>

subsection \<open>Library functions: regular expressions, JSON validity, quoting\<close>

text \<open>The character classes of Go's \<open>regexp\<close>: \<open>\s\<close> is \<open>[\t\n\f\r ]\<close> and \<open>\w\<close> is
  \<open>[0-9A-Za-z_]\<close>.\<close>

definition reSpace :: "char \<Rightarrow> bool" where
  "reSpace c \<longleftrightarrow> c \<in> set [CHR 0x09, CHR 0x0A, CHR 0x0C, CHR 0x0D, CHR 0x20]"

definition reWord :: "char \<Rightarrow> bool" where
  "reWord c \<longleftrightarrow> isDigit c \<or> isUpper c \<or> isLower c \<or> c = CHR ''_''"

text \<open>
  \<open>matchPrimary s\<close>: the match of \<open>TOOL_CALL:\s*(\w+)\s*\(\<close> at the beginning of \<open>s\<close>, as
  the group and the length of the match. White space, word characters and the
  parenthesis exclude one another, so the greedy reading is the only one.
\<close>

definition matchPrimary :: "string \<Rightarrow> (string \<times> nat) option" where
  "matchPrimary s =
     (if HasPrefix s ''TOOL_CALL:'' then
        (let r1 = dropWhile reSpace (drop 10 s);
             name = takeWhile reWord r1;
             r2 = dropWhile reSpace (dropWhile reWord r1)
         in case r2 of
              [] \<Rightarrow> None
            | c # t \<Rightarrow>
                if name \<noteq> [] \<and> c = CHR ''('' then Some (name, length s - length t) else None)
      else None)"

text \<open>
  \<open>FindAllStringSubmatchIndex\<close> for this expression: the matches from left to right, the
  search going on behind each match. A match is given as the tool name
  \<open>response[match[2]:match[3]]\<close> and the position \<open>match[1] - 1\<close> of its parenthesis.
  \<open>pos\<close> is the position of the text that is left, \<open>skip\<close> the number of its characters
  that belong to the last match.
\<close>

fun findAllPrimary :: "nat \<Rightarrow> nat \<Rightarrow> string \<Rightarrow> (string \<times> nat) list" where
  "findAllPrimary pos skip [] = []"
| "findAllPrimary pos skip (c # cs) =
     (if skip > 0 then findAllPrimary (pos + 1) (skip - 1) cs
      else case matchPrimary (c # cs) of
             None \<Rightarrow> findAllPrimary (pos + 1) 0 cs
           | Some (name, len) \<Rightarrow> (name, pos + len - 1) # findAllPrimary (pos + 1) (len - 1) cs)"

text \<open>
  \<open>matchCall s\<close>: the match of \<open>Call\s+(\w+)\s+with\s+({[^}]*})\<close> at the beginning of
  \<open>s\<close>, as the two groups and the length of the match.
\<close>

definition matchCall :: "string \<Rightarrow> (string \<times> string \<times> nat) option" where
  "matchCall s =
     (if HasPrefix s ''Call'' then
        (let r0 = drop 4 s;
             r1 = dropWhile reSpace r0;
             name = takeWhile reWord r1;
             r2 = dropWhile reWord r1;
             r3 = dropWhile reSpace r2;
             r4 = drop 4 r3;
             r5 = dropWhile reSpace r4
         in if takeWhile reSpace r0 \<noteq> [] \<and> name \<noteq> [] \<and> takeWhile reSpace r2 \<noteq> [] \<and>
               HasPrefix r3 ''with'' \<and> takeWhile reSpace r4 \<noteq> []
            then (case r5 of
                    [] \<Rightarrow> None
                  | c # t \<Rightarrow>
                      if c = CHR ''{'' then
                        (case dropWhile (\<lambda>x. x \<noteq> CHR ''}'') t of
                           [] \<Rightarrow> None
                         | e # u \<Rightarrow>
                             Some (name, c # takeWhile (\<lambda>x. x \<noteq> CHR ''}'') t @ [e],
                                   length s - length u))
                      else None)
            else None)
      else None)"

text \<open>\<open>FindAllStringSubmatch\<close> for this expression: the two groups of every match.\<close>

fun findAllCall :: "nat \<Rightarrow> string \<Rightarrow> (string \<times> string) list" where
  "findAllCall skip [] = []"
| "findAllCall skip (c # cs) =
     (if skip > 0 then findAllCall (skip - 1) cs
      else case matchCall (c # cs) of
             None \<Rightarrow> findAllCall 0 cs
           | Some (name, inputStr, len) \<Rightarrow> (name, inputStr) # findAllCall (len - 1) cs)"

text \<open>
  \<open>json_Valid\<close> stands for \<open>json.Valid\<close>. It follows the scanner of \<open>encoding/json\<close>, a
  machine that reads one byte at a time: \<open>scan_step\<close> is its step function and the list
  of \<open>parse_state\<close> its stack of open objects and arrays, innermost first. \<open>None\<close> is a
  syntax error.
\<close>

datatype parse_state = ParseObjectKey | ParseObjectValue | ParseArrayValue

datatype scan_step =
    BeginValue | BeginValueOrEmpty | BeginStringOrEmpty | BeginString | EndValue | EndTop
  | InString | InStringEsc | InStringEscU nat
  | Neg | Num1 | Num0 | Dot | Dot0 | NumE | NumESign | NumE0
  | Literal string

definition jsonSpace :: "char \<Rightarrow> bool" where
  "jsonSpace c \<longleftrightarrow> c \<in> set [CHR 0x20, CHR 0x09, CHR 0x0D, CHR 0x0A]"

definition isHex :: "char \<Rightarrow> bool" where
  "isHex c \<longleftrightarrow> isDigit c \<or> c \<in> set ''abcdefABCDEF''"

definition maxNestingDepth :: nat where
  "maxNestingDepth = 10000"

definition popParseState :: "parse_state list \<Rightarrow> scan_step \<times> parse_state list" where
  "popParseState rest = (if rest = [] then (EndTop, rest) else (EndValue, rest))"

fun stateEndValue :: "parse_state list \<Rightarrow> char \<Rightarrow> (scan_step \<times> parse_state list) option" where
  "stateEndValue [] c = (if jsonSpace c then Some (EndTop, []) else None)"
| "stateEndValue (ps # rest) c =
     (if jsonSpace c then Some (EndValue, ps # rest)
      else case ps of
             ParseObjectKey \<Rightarrow>
               if c = CHR '':'' then Some (BeginValue, ParseObjectValue # rest) else None
           | ParseObjectValue \<Rightarrow>
               if c = CHR '','' then Some (BeginString, ParseObjectKey # rest)
               else if c = CHR ''}'' then Some (popParseState rest)
               else None
           | ParseArrayValue \<Rightarrow>
               if c = CHR '','' then Some (BeginValue, ps # rest)
               else if c = CHR '']'' then Some (popParseState rest)
               else None)"

definition pushParseState ::
    "parse_state list \<Rightarrow> parse_state \<Rightarrow> scan_step \<Rightarrow> (scan_step \<times> parse_state list) option" where
  "pushParseState stack newParseState step =
     (if length (newParseState # stack) \<le> maxNestingDepth
      then Some (step, newParseState # stack) else None)"

definition stateBeginString :: "parse_state list \<Rightarrow> char \<Rightarrow> (scan_step \<times> parse_state list) option" where
  "stateBeginString stack c =
     (if jsonSpace c then Some (BeginString, stack)
      else if c = CHR 0x22 then Some (InString, stack)
      else None)"

definition stateBeginValue :: "parse_state list \<Rightarrow> char \<Rightarrow> (scan_step \<times> parse_state list) option" where
  "stateBeginValue stack c =
     (if jsonSpace c then Some (BeginValue, stack)
      else if c = CHR ''{'' then pushParseState stack ParseObjectKey BeginStringOrEmpty
      else if c = CHR ''['' then pushParseState stack ParseArrayValue BeginValueOrEmpty
      else if c = CHR 0x22 then Some (InString, stack)
      else if c = CHR ''-'' then Some (Neg, stack)
      else if c = CHR ''0'' then Some (Num0, stack)
      else if c = CHR ''t'' then Some (Literal ''rue'', stack)
      else if c = CHR ''f'' then Some (Literal ''alse'', stack)
      else if c = CHR ''n'' then Some (Literal ''ull'', stack)
      else if isDigit c then Some (Num1, stack)
      else None)"

definition state0 :: "parse_state list \<Rightarrow> char \<Rightarrow> (scan_step \<times> parse_state list) option" where
  "state0 stack c =
     (if c = CHR ''.'' then Some (Dot, stack)
      else if c = CHR ''e'' \<or> c = CHR ''E'' then Some (NumE, stack)
      else stateEndValue stack c)"

definition stateESign :: "parse_state list \<Rightarrow> char \<Rightarrow> (scan_step \<times> parse_state list) option" where
  "stateESign stack c = (if isDigit c then Some (NumE0, stack) else None)"

fun scanStep :: "scan_step \<Rightarrow> parse_state list \<Rightarrow> char \<Rightarrow> (scan_step \<times> parse_state list) option" where
  "scanStep BeginValue stack c = stateBeginValue stack c"
| "scanStep BeginValueOrEmpty stack c =
     (if jsonSpace c then Some (BeginValueOrEmpty, stack)
      else if c = CHR '']'' then stateEndValue stack c
      else stateBeginValue stack c)"
| "scanStep BeginStringOrEmpty stack c =
     (if jsonSpace c then Some (BeginStringOrEmpty, stack)
      else if c = CHR ''}'' then stateEndValue (ParseObjectValue # tl stack) c
      else stateBeginString stack c)"
| "scanStep BeginString stack c = stateBeginString stack c"
| "scanStep EndValue stack c = stateEndValue stack c"
| "scanStep EndTop stack c = (if jsonSpace c then Some (EndTop, stack) else None)"
| "scanStep InString stack c =
     (if c = CHR 0x22 then Some (EndValue, stack)
      else if c = CHR 0x5C then Some (InStringEsc, stack)
      else if (of_char c :: nat) < 32 then None
      else Some (InString, stack))"
| "scanStep InStringEsc stack c =
     (if c \<in> set [CHR ''b'', CHR ''f'', CHR ''n'', CHR ''r'', CHR ''t'', CHR 0x5C, CHR ''/'', CHR 0x22]
        then Some (InString, stack)
      else if c = CHR ''u'' then Some (InStringEscU 4, stack)
      else None)"
| "scanStep (InStringEscU k) stack c =
     (if isHex c then Some (if k \<le> 1 then InString else InStringEscU (k - 1), stack) else None)"
| "scanStep Neg stack c =
     (if c = CHR ''0'' then Some (Num0, stack)
      else if isDigit c then Some (Num1, stack)
      else None)"
| "scanStep Num1 stack c = (if isDigit c then Some (Num1, stack) else state0 stack c)"
| "scanStep Num0 stack c = state0 stack c"
| "scanStep Dot stack c = (if isDigit c then Some (Dot0, stack) else None)"
| "scanStep Dot0 stack c =
     (if isDigit c then Some (Dot0, stack)
      else if c = CHR ''e'' \<or> c = CHR ''E'' then Some (NumE, stack)
      else stateEndValue stack c)"
| "scanStep NumE stack c =
     (if c = CHR ''+'' \<or> c = CHR ''-'' then Some (NumESign, stack) else stateESign stack c)"
| "scanStep NumESign stack c = stateESign stack c"
| "scanStep NumE0 stack c = (if isDigit c then Some (NumE0, stack) else stateEndValue stack c)"
| "scanStep (Literal expected) stack c =
     (case expected of
        [] \<Rightarrow> None
      | e # rest \<Rightarrow>
          if c = e then Some (if rest = [] then EndValue else Literal rest, stack) else None)"

text \<open>\<open>checkValid\<close>: every byte is fed to the machine, then the end of the input.\<close>

fun scanBytes ::
    "scan_step \<times> parse_state list \<Rightarrow> string \<Rightarrow> (scan_step \<times> parse_state list) option" where
  "scanBytes st [] = Some st"
| "scanBytes st (c # cs) =
     (case scanStep (fst st) (snd st) c of None \<Rightarrow> None | Some st' \<Rightarrow> scanBytes st' cs)"

definition scanEof :: "scan_step \<times> parse_state list \<Rightarrow> bool" where
  "scanEof st =
     (if fst st = EndTop then True
      else case scanStep (fst st) (snd st) (CHR '' '') of
             None \<Rightarrow> False
           | Some st' \<Rightarrow> fst st' = EndTop)"

definition json_Valid :: "string \<Rightarrow> bool" where
  "json_Valid data =
     (case scanBytes (BeginValue, []) data of None \<Rightarrow> False | Some st \<Rightarrow> scanEof st)"

text \<open>
  The verb \<open>%q\<close> prints a string as a quoted Go string literal. What it prints for a
  character outside ASCII depends on tables of Unicode, so \<open>ParseToolCalls\<close> takes the
  quoting function as a parameter. \<open>QuoteASCII\<close> is this function on ASCII text: a
  printable character stands for itself, the quote and the backslash are escaped, the
  control characters are written \<open>\a \b \f \n \r \t \v\<close> or \<open>\x\<close> with two hexadecimal
  digits; a byte above 0x7F is written as Go writes a byte that is not valid UTF-8.
\<close>

definition lowerhex :: "nat \<Rightarrow> char" where
  "lowerhex d = ''0123456789abcdef'' ! (d mod 16)"

definition quoteByte :: "char \<Rightarrow> string" where
  "quoteByte c =
     (if c = CHR 0x22 \<or> c = CHR 0x5C then [CHR 0x5C, c]
      else if (32::nat) \<le> of_char c \<and> (of_char c :: nat) < 127 then [c]
      else if c = CHR 0x07 then [CHR 0x5C, CHR ''a'']
      else if c = CHR 0x08 then [CHR 0x5C, CHR ''b'']
      else if c = CHR 0x0C then [CHR 0x5C, CHR ''f'']
      else if c = CHR 0x0A then [CHR 0x5C, CHR ''n'']
      else if c = CHR 0x0D then [CHR 0x5C, CHR ''r'']
      else if c = CHR 0x09 then [CHR 0x5C, CHR ''t'']
      else if c = CHR 0x0B then [CHR 0x5C, CHR ''v'']
      else [CHR 0x5C, CHR ''x'', lowerhex (of_char c div 16), lowerhex (of_char c mod 16)])"

definition QuoteASCII :: "string \<Rightarrow> string" where
  "QuoteASCII s = [CHR 0x22] @ concat (map quoteByte s) @ [CHR 0x22]"

subsection \<open>The parser\<close>

text \<open>The struct \<open>ToolCall\<close>; \<open>CallInput\<close> holds the bytes of the \<open>json.RawMessage\<close>.\<close>

record ToolCall =
  CallID :: string
  CallName :: string
  CallFunction :: string
  CallInput :: string

text \<open>
  The loop of \<open>extractJSONManually\<close>: the position of the closing parenthesis, or \<open>None\<close>
  when the text ends first. \<open>parenCount\<close> is a Go \<open>int\<close>; it stays far below its bound,
  as it grows by at most one for each byte.
\<close>

function scanLoop :: "string \<Rightarrow> nat \<Rightarrow> int \<Rightarrow> bool \<Rightarrow> bool \<Rightarrow> nat option" where
  "scanLoop text pos parenCount inString escaped =
     (if pos < length text then
        (if escaped then scanLoop text (pos + 1) parenCount inString False
         else if text ! pos = CHR 0x5C then scanLoop text (pos + 1) parenCount inString True
         else if text ! pos = CHR 0x22 then scanLoop text (pos + 1) parenCount (\<not> inString) escaped
         else if \<not> inString then
           (if text ! pos = CHR ''('' then scanLoop text (pos + 1) (parenCount + 1) inString escaped
            else if text ! pos = CHR '')'' then
              (if parenCount - 1 = 0 then Some pos
               else scanLoop text (pos + 1) (parenCount - 1) inString escaped)
            else scanLoop text (pos + 1) parenCount inString escaped)
         else scanLoop text (pos + 1) parenCount inString escaped)
      else None)"
  by pat_completeness auto
termination
  by (relation "measure (\<lambda>(text, pos, parenCount, inString, escaped). length text - pos)") auto

declare scanLoop.simps [simp del]

text \<open>The slice \<open>text[i:j]\<close>.\<close>

definition slice :: "string \<Rightarrow> nat \<Rightarrow> nat \<Rightarrow> string" where
  "slice text i j = take (j - i) (drop i text)"

definition extractJSONManually :: "string \<Rightarrow> nat \<Rightarrow> string" where
  "extractJSONManually text startPos =
     (if startPos \<ge> length text \<or> text ! startPos \<noteq> CHR ''('' then []
      else case scanLoop text (startPos + 1) 1 False False of
             Some pos \<Rightarrow> TrimSpace (slice text (startPos + 1) pos)
           | None \<Rightarrow> TrimSpace (drop (startPos + 1) text))"

definition fixCommonJSONIssues :: "string \<Rightarrow> string" where
  "fixCommonJSONIssues jsonStr0 =
     (let jsonStr = TrimSpace jsonStr0 in
      if HasSuffix jsonStr '';'' then TrimSpace (take (length jsonStr - 1) jsonStr)
      else jsonStr)"

text \<open>The argument of a call: the text as it is when it is valid JSON, and wrapped
  otherwise.\<close>

definition callInput :: "(string \<Rightarrow> string) \<Rightarrow> string \<Rightarrow> string" where
  "callInput quoteQ jsonContent =
     (if json_Valid jsonContent then jsonContent
      else ''{\"input\": '' @ quoteQ jsonContent @ ''}'')"

text \<open>The first loop of \<open>ParseToolCalls\<close>, over the matches; \<open>i\<close> is the index of the
  first one.\<close>

fun primaryLoop ::
    "(string \<Rightarrow> string) \<Rightarrow> string \<Rightarrow> nat \<Rightarrow> (string \<times> nat) list \<Rightarrow> ToolCall list" where
  "primaryLoop quoteQ response i [] = []"
| "primaryLoop quoteQ response i ((toolName, openParenPos) # rest) =
     (let jsonContent = fixCommonJSONIssues (extractJSONManually response openParenPos) in
      if jsonContent = [] then primaryLoop quoteQ response (i + 1) rest
      else \<lparr>CallID = ''call_'' @ natDigits i, CallName = toolName, CallFunction = toolName,
             CallInput = callInput quoteQ jsonContent\<rparr> # primaryLoop quoteQ response (i + 1) rest)"

text \<open>The loop over the matches of the fallback pattern.\<close>

fun fallbackLoop :: "(string \<Rightarrow> string) \<Rightarrow> nat \<Rightarrow> (string \<times> string) list \<Rightarrow> ToolCall list" where
  "fallbackLoop quoteQ i [] = []"
| "fallbackLoop quoteQ i ((toolName, inputStr) # rest) =
     \<lparr>CallID = ''call_'' @ natDigits i, CallName = toolName, CallFunction = toolName,
      CallInput = callInput quoteQ inputStr\<rparr> # fallbackLoop quoteQ (i + 1) rest"

definition ParseToolCalls :: "(string \<Rightarrow> string) \<Rightarrow> string \<Rightarrow> ToolCall list" where
  "ParseToolCalls quoteQ response =
     (let toolCalls = primaryLoop quoteQ response 0 (findAllPrimary 0 0 response) in
      if length toolCalls = 0 then fallbackLoop quoteQ 0 (findAllCall 0 response)
      else toolCalls)"

subsection \<open>Execute on the argument bytes of a call\<close>

text \<open>
  The whole of \<open>Execute\<close>. The decoding belongs to \<open>encoding/json\<close> and is a parameter:
  \<open>decodeWrapped\<close> is \<open>json.Unmarshal\<close> into a struct with the one string field \<open>input\<close>
  (the field, when there is no error), \<open>decodeMeal\<close> is \<open>json.Unmarshal\<close> into a
  \<open>LogMealInput\<close> (the text of the error, or the struct).
  Two more errors: \<open>TruncatedInput p\<close> is "received truncated or invalid JSON input. ...
  Got: p" and \<open>ParseFailed e r\<close> is "failed to parse meal input: e. Raw input: r".
\<close>

datatype execute_error = TruncatedInput string | ParseFailed string string | MealError error

definition Execute ::
    "(string \<Rightarrow> string option) \<Rightarrow> (string \<Rightarrow> string + LogMealInput) \<Rightarrow>
     environ \<Rightarrow> remote \<Rightarrow> string \<Rightarrow> execute_error + string" where
  "Execute decodeWrapped decodeMeal env http input =
     (let wrapped = (case decodeWrapped input of None \<Rightarrow> [] | Some w \<Rightarrow> w) in
      if wrapped \<noteq> [] \<and> \<not> json_Valid wrapped then
        Inl (TruncatedInput (if length wrapped > 100 then take 100 wrapped @ ''...'' else wrapped))
      else
        let rawInput = (if wrapped \<noteq> [] then wrapped else input) in
        case decodeMeal rawInput of
          Inl err \<Rightarrow> Inl (ParseFailed err rawInput)
        | Inr mealInput \<Rightarrow>
            (case ExecuteDecoded env http mealInput of
               Inl err \<Rightarrow> Inl (MealError err)
             | Inr result \<Rightarrow> Inr result))"

section \<open>The conversation loop\<close>

text \<open>
  The loop talks to the user, to the model and to the tools. The model keeps what lies
  behind these interfaces in a state \<open>'w\<close> of the world, which every call may read and
  change: \<open>GetInput\<close> returns a line and whether there was one, \<open>GenerateResponse\<close> the
  text of an error or a response, \<open>GetTool\<close> finds a tool by its name, and the tool
  itself, applied to the argument bytes, returns the text of an error or its result.
  What the loop prints is left out.
\<close>

record Message =
  Role :: string
  Content :: string




text \<open>
  The variables of \<open>Run\<close>, the world, and a record of the tool calls that were handed to
  a tool so far. The code has no such record; it is kept to state what the loop executes.
\<close>

record 'w run_state =
  conversation :: "Message list"
  readUserInput :: bool
  world :: 'w
  executed :: "ToolCall list"






text \<open>An iteration of the loop either goes on with new variables or leaves \<open>Run\<close>, with
  \<open>nil\<close> or with the text of an error.\<close>

datatype 'w step = Next "'w run_state" | Return "string option" "'w run_state"




definition initialState :: "'w \<Rightarrow> 'w run_state" where
  "initialState w = \<lparr>conversation = [], readUserInput = True, world = w, executed = []\<rparr>"

section \<open>Notions of the specification and example inputs\<close>

text \<open>
  The specification resolves a logical field as "the first candidate among the synonym
  fields that parses to an acceptable value". \<open>parsesTo\<close> is the value a candidate parses
  to, if it parses, and \<open>firstResolved ok\<close> the first of these values that is \<open>ok\<close>.
\<close>

definition parsesTo :: "string \<Rightarrow> any \<Rightarrow> float64 option" where
  "parsesTo fieldName candidate =
     (case parseNumberField candidate fieldName of Inl err \<Rightarrow> None | Inr v \<Rightarrow> Some v)"

definition firstResolved :: "(float64 \<Rightarrow> bool) \<Rightarrow> string \<Rightarrow> any list \<Rightarrow> float64 option" where
  "firstResolved ok fieldName candidates =
     List.find ok (List.map_filter (parsesTo fieldName) candidates)"

text \<open>A food item and a meal input with every field left out, an environment that
  holds a token and a user, and remote services.\<close>

definition emptyFood :: FoodItem where
  "emptyFood =
     \<lparr>Name = [], FoodItem' = [], Item = [], Food = [],
      Quantity = ANil, Amount = ANil, Serving = ANil, Count = ANil,
      Unit = [], Units = [], Measurement = [], Size = [],
      Calories = ANil, Cals = ANil, Cal = ANil, Energy = ANil,
      Preparation = [], BreadType = [], CookingMethod = []\<rparr>"

definition emptyMeal :: LogMealInput where
  "emptyMeal =
     \<lparr>MealType = [], Foods = [], Toast = [], Snacks = [], Items = [], FoodItems = [],
      MealTime = [], Time = [], Notes = [], Description = [], TotalCalories = ANil\<rparr>"

definition loggedIn :: environ where
  "loggedIn var =
     (if var = ''FITBIT_ACCESS_TOKEN'' then ''token''
      else if var = ''FITBIT_USER_ID'' then ''user'' else [])"

definition remoteCreated :: remote where
  "remoteCreated k = StatusCode 201"


text \<open>\<open>{food_item: "eggs", amount: "two"}\<close>, and the same item with 140 calories.\<close>

definition eggsNoCalories :: FoodItem where
  "eggsNoCalories = emptyFood\<lparr>FoodItem' := ''eggs'', Amount := AString ''two''\<rparr>"

definition eggs140 :: FoodItem where
  "eggs140 = eggsNoCalories\<lparr>Cals := AFloat64 140\<rparr>"

text \<open>An item whose first quantity candidate is 0 and whose second one is "3".\<close>

definition riceZeroQuantity :: FoodItem where
  "riceZeroQuantity =
     emptyFood\<lparr>Name := ''rice'', Quantity := AFloat64 0, Amount := AString ''3'',
               Calories := AFloat64 200\<rparr>"


text \<open>A breakfast of eggs with 140 calories followed by \<open>{food_item: "eggs", amount: "two"}\<close>,
  and a lunch without items.\<close>

definition breakfastTwoEggs :: LogMealInput where
  "breakfastTwoEggs =
     emptyMeal\<lparr>MealType := ''breakfast'', Foods := [eggs140], Toast := [eggsNoCalories]\<rparr>"







text \<open>
  \<open>tailOK bad r\<close>: the text \<open>r\<close> that follows a number is empty or begins with a character
  that is neither a digit nor one of \<open>bad\<close>.
\<close>

definition tailOK :: "string \<Rightarrow> string \<Rightarrow> bool" where
  "tailOK bad r = (case r of [] \<Rightarrow> True | c # t \<Rightarrow> \<not> isDigit c \<and> c \<notin> set bad)"











text \<open>
  The scanner of the specification. It reads the text behind the opening parenthesis
  with a nesting counter that starts at 1, a flag for "inside a quoted string" and a flag
  for "the next character is escaped". An escaped character changes nothing; a backslash
  escapes the next character; a quote that is not escaped toggles the string flag; a
  parenthesis outside a string moves the counter.
\<close>

record scanner =
  depth :: int
  inStr :: bool
  esc :: bool

definition advance :: "scanner \<Rightarrow> char \<Rightarrow> scanner" where
  "advance s c =
     (if esc s then s\<lparr>esc := False\<rparr>
      else if c = CHR 0x5C then s\<lparr>esc := True\<rparr>
      else if c = CHR 0x22 then s\<lparr>inStr := \<not> inStr s\<rparr>
      else if inStr s then s
      else if c = CHR ''('' then s\<lparr>depth := depth s + 1\<rparr>
      else if c = CHR '')'' then s\<lparr>depth := depth s - 1\<rparr>
      else s)"

text \<open>The scanner after the characters at the positions \<open>start + 1, \<dots>, i\<close>.\<close>

definition scannerAfter :: "string \<Rightarrow> nat \<Rightarrow> nat \<Rightarrow> scanner" where
  "scannerAfter text start i =
     foldl advance \<lparr>depth = 1, inStr = False, esc = False\<rparr> (slice text (start + 1) (i + 1))"

text \<open>The closing parenthesis: the first position at which the counter is back at zero.\<close>

definition closingParen :: "string \<Rightarrow> nat \<Rightarrow> nat option" where
  "closingParen text start =
     List.find (\<lambda>i. depth (scannerAfter text start i) = 0) [start + 1 ..< length text]"

text \<open>The argument text of the specification: what lies between the opening and the
  closing parenthesis, or the rest of the text when nothing closes it.\<close>

definition argumentSpan :: "string \<Rightarrow> nat \<Rightarrow> string" where
  "argumentSpan text start =
     (case closingParen text start of
        Some close \<Rightarrow> slice text (start + 1) close
      | None \<Rightarrow> drop (start + 1) text)"

text \<open>A call whose JSON argument holds parentheses and an escaped quote inside a string:
  \<open>TOOL_CALL: note({"t": "a) \" (b"}) done\<close>.\<close>

definition noteCall :: string where
  "noteCall = ''TOOL_CALL: note({\"t\": \"a) '' @ [CHR 0x5C] @ ''\" (b\"}) done''"

definition noteArgument :: string where
  "noteArgument = ''{\"t\": \"a) '' @ [CHR 0x5C] @ ''\" (b\"}''"

text \<open>A directive with white space around its argument.\<close>

definition spacedCall :: string where
  "spacedCall = ''TOOL_CALL: f( x )''"

text \<open>A response with three directives: the argument of the first is valid JSON followed
  by a semicolon, the second has no argument, the third is not valid JSON.\<close>

definition threeCalls :: string where
  "threeCalls = ''TOOL_CALL: a({\"x\": 1};) TOOL_CALL: b() TOOL_CALL: c({oops)''"

text \<open>A directive without an argument.\<close>

definition loginCall :: string where
  "loginCall = ''TOOL_CALL: fitbit_login()''"

section \<open>Properties\<close>

subsection \<open>Resolution of quantity and calories\<close>

lemma parsesTo_ANil [simp]: "parsesTo f ANil = None"
  by (simp add: parsesTo_def)

lemma quantityLoop_firstResolved:
  "quantityLoop cs = Inr (case firstResolved (\<lambda>v. 0 < v) ''quantity'' cs of Some v \<Rightarrow> v | None \<Rightarrow> 1)"
proof (induction cs)
  case Nil
  show ?case by (simp add: firstResolved_def List.map_filter_simps)
next
  case (Cons c cs)
  show ?case
  proof (cases "c = ANil")
    case True
    with Cons show ?thesis by (simp add: firstResolved_def List.map_filter_simps)
  next
    case False
    with Cons show ?thesis
      by (cases "parseNumberField c ''quantity''")
         (simp_all add: firstResolved_def List.map_filter_simps parsesTo_def)
  qed
qed

lemma caloriesLoop_firstResolved:
  "caloriesLoop cs =
     (case firstResolved (\<lambda>v. 0 \<le> v) ''calories'' cs of Some v \<Rightarrow> Inr v | None \<Rightarrow> Inl CaloriesMissing)"
proof (induction cs)
  case Nil
  show ?case by (simp add: firstResolved_def List.map_filter_simps)
next
  case (Cons c cs)
  show ?case
  proof (cases "c = ANil")
    case True
    with Cons show ?thesis by (simp add: firstResolved_def List.map_filter_simps)
  next
    case False
    with Cons show ?thesis
      by (cases "parseNumberField c ''calories''")
         (simp_all add: firstResolved_def List.map_filter_simps parsesTo_def)
  qed
qed

lemma firstResolved_ok: "firstResolved ok f cs = Some v \<Longrightarrow> ok v"
  by (auto simp: firstResolved_def find_Some_iff)

lemma getAnyQuantity_positive: "\<exists>q. getAnyQuantity food = Inr q \<and> 0 < q"
  unfolding getAnyQuantity_def quantityLoop_firstResolved
  by (auto split: option.splits dest: firstResolved_ok)

text \<open>
  Claim C10. Quantity resolution never fails: \<open>getAnyQuantity\<close> returns the first of the
  candidates quantity, amount, serving, count that parses to a value greater than 0, and
  1 when there is none; so the quantity of every parsed food item is greater than 0, and a
  candidate that parses to 0 is passed over.
\<close>

theorem quantity_never_fails:
  "getAnyQuantity food =
     Inr (case firstResolved (\<lambda>v. 0 < v) ''quantity''
                [Quantity food, Amount food, Serving food, Count food] of
            Some v \<Rightarrow> v | None \<Rightarrow> 1)
   \<and> (\<exists>q. getAnyQuantity food = Inr q \<and> 0 < q)
   \<and> (\<forall>parsed. parseFoodItem food = Inr parsed \<longrightarrow> 0 < ParsedQuantity parsed)"
proof (intro conjI allI impI)
  show "getAnyQuantity food =
     Inr (case firstResolved (\<lambda>v. 0 < v) ''quantity''
                [Quantity food, Amount food, Serving food, Count food] of
            Some v \<Rightarrow> v | None \<Rightarrow> 1)"
    by (simp only: getAnyQuantity_def quantityLoop_firstResolved)
  show "\<exists>q. getAnyQuantity food = Inr q \<and> 0 < q" by (rule getAnyQuantity_positive)
next
  fix parsed assume p: "parseFoodItem food = Inr parsed"
  obtain q where q: "getAnyQuantity food = Inr q" "0 < q"
    using getAnyQuantity_positive by blast
  from p q show "0 < ParsedQuantity parsed"
    by (auto simp: parseFoodItem_def Let_def split: if_splits sum.splits)
qed

text \<open>An item whose quantity field is 0 and whose amount is "3" gets the quantity 3.\<close>

theorem quantity_never_fails_witness:
  "getAnyQuantity riceZeroQuantity = Inr 3 \<and>
   parseFoodItem riceZeroQuantity =
     Inr \<lparr>ParsedName = ''rice'', ParsedQuantity = 3, ParsedUnit = ''servings'', ParsedCalories = 200\<rparr> \<and>
   0 < ParsedQuantity \<lparr>ParsedName = ''rice'', ParsedQuantity = 3, ParsedUnit = ''servings'', ParsedCalories = 200\<rparr>"
proof -
  have e: "parseFoodItem riceZeroQuantity =
     Inr \<lparr>ParsedName = ''rice'', ParsedQuantity = 3, ParsedUnit = ''servings'', ParsedCalories = 200\<rparr>"
    by code_simp
  have g: "getAnyQuantity riceZeroQuantity = Inr 3" by code_simp
  from quantity_never_fails [of riceZeroQuantity] e g show ?thesis by simp
qed

subsection \<open>The loop over the items\<close>

lemma parseFoods_stops_at_first_failure:
  "parseFoods i before = Inr parsedBefore \<Longrightarrow> parseFoodItem food = Inl err \<Longrightarrow>
   parseFoods i (before @ food # after) =
     Inl (ItemError (i + length before + 1) (getAnyFoodName food) err)"
proof (induction before arbitrary: i parsedBefore)
  case Nil
  then show ?case by simp
next
  case (Cons b before)
  from Cons.prems(1) obtain p ps where
    b: "parseFoodItem b = Inr p" and rest: "parseFoods (i + 1) before = Inr ps"
    by (auto split: sum.splits)
  from Cons.IH [OF rest Cons.prems(2)] b show ?case by simp
qed

lemma parseFoodItem_without_calories:
  assumes "firstResolved (\<lambda>v. 0 \<le> v) ''calories''
             [Calories food, Cals food, Cal food, Energy food] = None"
  shows "parseFoodItem food =
           Inl (if getAnyFoodName food = [] then NameMissing else CaloriesMissing)"
proof -
  have c: "getAnyCalories food = Inl CaloriesMissing"
    using assms by (simp only: getAnyCalories_def caloriesLoop_firstResolved) simp
  obtain q where q: "getAnyQuantity food = Inr q"
    using getAnyQuantity_positive by blast
  from c q show ?thesis by (simp add: parseFoodItem_def)
qed

text \<open>
  Claim C3. The calories of a raw food item are the first of the candidates calories,
  cals, cal, energy that parses to a value that is at least 0. When none does, the
  normalization of a meal that reaches the item (its meal type is recognised and the
  items before it parse) fails with an error that cites the one-based position of the
  item and its best-effort name, whether or not a name and a quantity are present.
\<close>

theorem calories_first_resolved_or_error:
  "getAnyCalories food =
     (case firstResolved (\<lambda>v. 0 \<le> v) ''calories''
             [Calories food, Cals food, Cal food, Energy food] of
        Some v \<Rightarrow> Inr v | None \<Rightarrow> Inl CaloriesMissing)
   \<and> (firstResolved (\<lambda>v. 0 \<le> v) ''calories''
         [Calories food, Cals food, Cal food, Energy food] = None \<and>
       normalizeMealType (MealType input) \<noteq> [] \<and>
       collectAllFoods input = before @ food # after \<and>
       parseFoods 0 before = Inr parsedBefore
       \<longrightarrow> ExecuteDecoded env http input =
             Inl (ItemError (length before + 1) (getAnyFoodName food)
                    (if getAnyFoodName food = [] then NameMissing else CaloriesMissing)))"
proof (intro conjI impI)
  show "getAnyCalories food =
     (case firstResolved (\<lambda>v. 0 \<le> v) ''calories''
             [Calories food, Cals food, Cal food, Energy food] of
        Some v \<Rightarrow> Inr v | None \<Rightarrow> Inl CaloriesMissing)"
    by (simp only: getAnyCalories_def caloriesLoop_firstResolved)
next
  assume a: "firstResolved (\<lambda>v. 0 \<le> v) ''calories''
         [Calories food, Cals food, Cal food, Energy food] = None \<and>
       normalizeMealType (MealType input) \<noteq> [] \<and>
       collectAllFoods input = before @ food # after \<and>
       parseFoods 0 before = Inr parsedBefore"
  then have f: "parseFoodItem food =
           Inl (if getAnyFoodName food = [] then NameMissing else CaloriesMissing)"
    by (simp add: parseFoodItem_without_calories)
  from a have p: "parseFoods 0 before = Inr parsedBefore" by simp
  have "parseFoods 0 (collectAllFoods input) =
          Inl (ItemError (length before + 1) (getAnyFoodName food)
                    (if getAnyFoodName food = [] then NameMissing else CaloriesMissing))"
    using parseFoods_stops_at_first_failure [OF p f, of after] a by simp
  with a show "ExecuteDecoded env http input =
             Inl (ItemError (length before + 1) (getAnyFoodName food)
                    (if getAnyFoodName food = [] then NameMissing else CaloriesMissing))"
    by (simp add: ExecuteDecoded_def)
qed

text \<open>In \<open>breakfastTwoEggs\<close> the second item has no calories: the error cites position 2
  and the name "eggs".\<close>

theorem calories_first_resolved_or_error_witness:
  "firstResolved (\<lambda>v. 0 \<le> v) ''calories''
      [Calories eggsNoCalories, Cals eggsNoCalories, Cal eggsNoCalories, Energy eggsNoCalories] = None \<and>
   normalizeMealType (MealType breakfastTwoEggs) \<noteq> [] \<and>
   collectAllFoods breakfastTwoEggs = [eggs140] @ eggsNoCalories # [] \<and>
   parseFoods 0 [eggs140] =
     Inr [\<lparr>ParsedName = ''eggs'', ParsedQuantity = 2, ParsedUnit = ''large'', ParsedCalories = 140\<rparr>] \<and>
   getAnyCalories eggs140 = Inr 140 \<and>
   ExecuteDecoded loggedIn remoteCreated breakfastTwoEggs = Inl (ItemError 2 ''eggs'' CaloriesMissing)"
proof -
  have 1: "firstResolved (\<lambda>v. 0 \<le> v) ''calories''
      [Calories eggsNoCalories, Cals eggsNoCalories, Cal eggsNoCalories, Energy eggsNoCalories] = None"
    by code_simp
  have 2: "normalizeMealType (MealType breakfastTwoEggs) \<noteq> []" by code_simp
  have 3: "collectAllFoods breakfastTwoEggs = [eggs140] @ eggsNoCalories # []" by code_simp
  have 4: "parseFoods 0 [eggs140] =
     Inr [\<lparr>ParsedName = ''eggs'', ParsedQuantity = 2, ParsedUnit = ''large'', ParsedCalories = 140\<rparr>]"
    by code_simp
  have 5: "getAnyFoodName eggsNoCalories = ''eggs''" by code_simp
  have 6: "getAnyCalories eggs140 = Inr 140" by code_simp
  from calories_first_resolved_or_error
         [of eggsNoCalories breakfastTwoEggs "[eggs140]" "[]" _ loggedIn remoteCreated] 1 2 3 4 5
  have "ExecuteDecoded loggedIn remoteCreated breakfastTwoEggs = Inl (ItemError 2 ''eggs'' CaloriesMissing)"
    by simp
  with 1 2 3 4 6 show ?thesis by simp
qed



subsection \<open>The cross-check of the total\<close>












subsection \<open>The remote call and the expired credential\<close>








subsection \<open>Characters and trimming\<close>














subsection \<open>Digit strings\<close>




lemma not_digit [simp]:
  "\<not> isDigit (CHR ''/'')" "\<not> isDigit (CHR ''.'')" "\<not> isDigit (CHR ''+'')" "\<not> isDigit (CHR ''-'')"
  by (simp_all add: isDigit_def)


lemma scale10_0 [simp]: "scale10 m 0 = m"
  by (simp add: scale10_def)





subsection \<open>The regular expressions on a text that begins with a number\<close>





lemma tailOK_weaken: "set bad' \<subseteq> set bad \<Longrightarrow> tailOK bad r \<Longrightarrow> tailOK bad' r"
  by (cases r) (auto simp: tailOK_def)


subsection \<open>The normalizer on a text that begins with a number\<close>








subsection \<open>Words, fractions and leading numbers\<close>

text \<open>
  Claim C5. Every word of the table is accepted with its value, but "zero" is not:
  \<open>extractNumberFromText\<close> finds the value 0 in the table, and \<open>parseNumberField\<close>
  takes a result that is not greater than 0 for "no number found" and returns the error
  "must be a number".
\<close>

theorem zero_word_rejected:
  "map_of wordNumbers ''zero'' = Some 0 \<and>
   extractNumberFromText ''zero'' = 0 \<and>
   parseNumberField (AString ''zero'') fieldName = Inl (NotANumber fieldName ''zero'') \<and>
   map (\<lambda>(w, v). parseNumberField (AString w) fieldName) (tl wordNumbers) =
     map (\<lambda>(w, v). Inr v) (tl wordNumbers)"
  by code_simp




subsection \<open>The conversation loop\<close>








subsection \<open>The balanced scan\<close>

lemma depth_advance: "depth s - 1 \<le> depth (advance s c)"
  by (simp add: advance_def)

lemma advance_closes:
  "1 \<le> depth s \<Longrightarrow>
   depth (advance s c) = 0 \<longleftrightarrow> \<not> esc s \<and> \<not> inStr s \<and> c = CHR '')'' \<and> depth s = 1"
  by (auto simp: advance_def)

lemma scanLoop_step:
  assumes "pos < length text" and "1 \<le> pc"
  shows "scanLoop text pos pc ins es =
     (let s = advance \<lparr>depth = pc, inStr = ins, esc = es\<rparr> (text ! pos) in
      if depth s = 0 then Some pos else scanLoop text (pos + 1) (depth s) (inStr s) (esc s))"
  using assms by (subst scanLoop.simps) (auto simp: advance_def Let_def)

lemma slice_first: "pos < length text \<Longrightarrow> slice text pos (Suc pos) = [text ! pos]"
  by (simp add: slice_def take_Suc_conv_app_nth hd_drop_conv_nth take_Suc)

lemma slice_Cons:
  "pos < length text \<Longrightarrow> pos < i \<Longrightarrow>
   slice text pos (Suc i) = text ! pos # slice text (Suc pos) (Suc i)"
proof -
  assume a: "pos < length text" "pos < i"
  then have "drop pos text = text ! pos # drop (Suc pos) text"
    by (simp add: Cons_nth_drop_Suc)
  moreover from a have "Suc i - pos = Suc (Suc i - Suc pos)" by simp
  ultimately show ?thesis by (simp only: slice_def take_Suc_Cons)
qed

lemma scanner_eta: "\<lparr>depth = depth s, inStr = inStr s, esc = esc s\<rparr> = (s :: scanner)"
  by simp

lemma scanLoop_find:
  "1 \<le> pc \<Longrightarrow>
   scanLoop text pos pc ins es =
     List.find (\<lambda>i. depth (foldl advance \<lparr>depth = pc, inStr = ins, esc = es\<rparr>
                               (slice text pos (i + 1))) = 0)
       [pos ..< length text]"
proof (induction "length text - pos" arbitrary: pos pc ins es)
  case 0
  then have "\<not> pos < length text" by simp
  then show ?case by (subst scanLoop.simps) simp
next
  case (Suc n)
  then have lt: "pos < length text" by simp
  let ?s = "\<lparr>depth = pc, inStr = ins, esc = es\<rparr>"
  let ?s' = "advance ?s (text ! pos)"
  let ?P = "\<lambda>i. depth (foldl advance ?s (slice text pos (i + 1))) = 0"
  let ?Q = "\<lambda>i. depth (foldl advance ?s' (slice text (pos + 1) (i + 1))) = 0"
  have upt: "[pos ..< length text] = pos # [pos + 1 ..< length text]"
    using lt by (simp add: upt_conv_Cons)
  have here: "?P pos \<longleftrightarrow> depth ?s' = 0" by (simp add: slice_first lt)
  have later: "List.find ?P [pos + 1 ..< length text] = List.find ?Q [pos + 1 ..< length text]"
    by (rule find_cong) (simp_all add: slice_Cons lt)
  show ?case
  proof (cases "depth ?s' = 0")
    case True
    with here show ?thesis
      by (simp add: scanLoop_step [OF lt Suc.prems] upt del: upt_Suc)
  next
    case False
    with depth_advance [of ?s "text ! pos"] Suc.prems have one: "1 \<le> depth ?s'" by simp
    from Suc.hyps(2) lt have n: "n = length text - (pos + 1)" by simp
    have "scanLoop text (pos + 1) (depth ?s') (inStr ?s') (esc ?s') =
            List.find ?Q [pos + 1 ..< length text]"
      using Suc.hyps(1) [OF n one, of "inStr ?s'" "esc ?s'"] by (simp add: scanner_eta)
    with False here later show ?thesis
      by (simp add: scanLoop_step [OF lt Suc.prems] upt Let_def del: upt_Suc)
  qed
qed

lemma scanLoop_closingParen:
  "scanLoop text (start + 1) 1 False False = closingParen text start"
  by (simp add: scanLoop_find closingParen_def scannerAfter_def)

lemma extractJSONManually_argumentSpan:
  "startPos < length text \<Longrightarrow> text ! startPos = CHR ''('' \<Longrightarrow>
   extractJSONManually text startPos = TrimSpace (argumentSpan text startPos)"
  unfolding extractJSONManually_def argumentSpan_def scanLoop_closingParen
  by (simp split: option.splits)

lemma scannerAfter_start:
  "scannerAfter text start start = \<lparr>depth = 1, inStr = False, esc = False\<rparr>"
  by (simp add: scannerAfter_def slice_def)

lemma scannerAfter_Suc:
  assumes "start \<le> i" and "Suc i < length text"
  shows "scannerAfter text start (Suc i) = advance (scannerAfter text start i) (text ! Suc i)"
proof -
  let ?xs = "drop (Suc start) text"
  from assms have l: "i - start < length ?xs" by simp
  from assms have "Suc (Suc i) - Suc start = Suc (i - start)" by simp
  then have "slice text (Suc start) (Suc (Suc i)) = take (i - start) ?xs @ [?xs ! (i - start)]"
    using l by (simp only: slice_def take_Suc_conv_app_nth)
  moreover from assms have "?xs ! (i - start) = text ! Suc i" by simp
  moreover from assms have "take (i - start) ?xs = slice text (Suc start) (Suc i)"
    by (simp add: slice_def)
  ultimately show ?thesis by (simp add: scannerAfter_def)
qed

lemma depth_positive:
  "start \<le> i \<Longrightarrow> i < length text \<Longrightarrow>
   \<forall>j. start < j \<and> j \<le> i \<longrightarrow> depth (scannerAfter text start j) \<noteq> 0 \<Longrightarrow>
   1 \<le> depth (scannerAfter text start i)"
proof (induction i)
  case 0
  then show ?case by (simp add: scannerAfter_start)
next
  case (Suc i)
  show ?case
  proof (cases "start = Suc i")
    case True
    then show ?thesis by (simp add: scannerAfter_start)
  next
    case False
    with Suc.prems have s: "start \<le> i" "i < length text" by simp_all
    from Suc.prems(3) have "\<forall>j. start < j \<and> j \<le> i \<longrightarrow> depth (scannerAfter text start j) \<noteq> 0"
      by simp
    from Suc.IH [OF s this] have "1 \<le> depth (scannerAfter text start i)" .
    with depth_advance [of "scannerAfter text start i" "text ! Suc i"]
    have "0 \<le> depth (scannerAfter text start (Suc i))"
      by (simp add: scannerAfter_Suc [OF s(1) Suc.prems(2)])
    moreover from Suc.prems(3) False s(1) have "depth (scannerAfter text start (Suc i)) \<noteq> 0"
      by simp
    ultimately show ?thesis by simp
  qed
qed

lemma closingParen_Some:
  assumes "closingParen text start = Some close"
  shows "start < close" and "close < length text"
    and "depth (scannerAfter text start close) = 0"
    and "\<forall>j. start < j \<and> j < close \<longrightarrow> depth (scannerAfter text start j) \<noteq> 0"
proof -
  let ?P = "\<lambda>i. depth (scannerAfter text start i) = 0"
  from assms obtain k where k: "k < length [start + 1 ..< length text]"
    "?P ([start + 1 ..< length text] ! k)" "close = [start + 1 ..< length text] ! k"
    "\<forall>j<k. \<not> ?P ([start + 1 ..< length text] ! j)"
    unfolding closingParen_def find_Some_iff by blast
  from k(1,3) have c: "close = start + 1 + k" "close < length text" by simp_all
  then show "start < close" "close < length text" by simp_all
  from k(2,3) show "depth (scannerAfter text start close) = 0" by simp
  show "\<forall>j. start < j \<and> j < close \<longrightarrow> depth (scannerAfter text start j) \<noteq> 0"
  proof (intro allI impI)
    fix j assume j: "start < j \<and> j < close"
    then have j': "start < j" "j < close" by simp_all
    with c(1) have "j - (start + 1) < k" by linarith
    with k(4) have "\<not> ?P ([start + 1 ..< length text] ! (j - (start + 1)))" by blast
    moreover from j' c have "[start + 1 ..< length text] ! (j - (start + 1)) = j" by simp
    ultimately show "depth (scannerAfter text start j) \<noteq> 0" by simp
  qed
qed

lemma closingParen_outside_string:
  assumes "closingParen text start = Some close"
  shows "text ! close = CHR '')''"
    and "depth (scannerAfter text start (close - 1)) = 1"
    and "\<not> inStr (scannerAfter text start (close - 1))"
    and "\<not> esc (scannerAfter text start (close - 1))"
proof -
  note c = closingParen_Some [OF assms]
  from c(1) obtain i where i: "close = Suc i" "start \<le> i" by (cases close) auto
  from c(4) i have "\<forall>j. start < j \<and> j \<le> i \<longrightarrow> depth (scannerAfter text start j) \<noteq> 0" by simp
  with i c(2) have one: "1 \<le> depth (scannerAfter text start i)"
    by (intro depth_positive) simp_all
  from c(3) i c(2) have "depth (advance (scannerAfter text start i) (text ! Suc i)) = 0"
    by (simp add: scannerAfter_Suc)
  with advance_closes [OF one] i
  show "text ! close = CHR '')''" "depth (scannerAfter text start (close - 1)) = 1"
    "\<not> inStr (scannerAfter text start (close - 1))" "\<not> esc (scannerAfter text start (close - 1))"
    by simp_all
qed

subsection \<open>The matches of the primary grammar\<close>

lemma dropWhile_suffix: "\<exists>pre. xs = pre @ dropWhile P xs"
  by (metis takeWhile_dropWhile_id)

lemma drop_suffix: "\<exists>pre. xs = pre @ drop n xs"
  by (metis append_take_drop_id)

lemma matchPrimary_paren:
  assumes "matchPrimary s = Some (name, len)"
  shows "0 < len \<and> len \<le> length s \<and> s ! (len - 1) = CHR ''(''"
proof -
  let ?r2 = "dropWhile reSpace (dropWhile reWord (dropWhile reSpace (drop 10 s)))"
  from assms obtain t where r: "?r2 = CHR ''('' # t" and len: "len = length s - length t"
    by (auto simp: matchPrimary_def Let_def split: if_splits list.splits)
  obtain p1 where "s = p1 @ drop 10 s" using drop_suffix by blast
  moreover obtain p2 where "drop 10 s = p2 @ dropWhile reSpace (drop 10 s)"
    using dropWhile_suffix by blast
  moreover obtain p3 where
    "dropWhile reSpace (drop 10 s) = p3 @ dropWhile reWord (dropWhile reSpace (drop 10 s))"
    using dropWhile_suffix by blast
  moreover obtain p4 where
    "dropWhile reWord (dropWhile reSpace (drop 10 s)) = p4 @ ?r2"
    using dropWhile_suffix by blast
  ultimately have "s = (p1 @ p2 @ p3 @ p4) @ CHR ''('' # t" using r by (metis append.assoc)
  then obtain pre where s: "s = pre @ CHR ''('' # t" by blast
  then have "len = length pre + 1" using len by simp
  with s show ?thesis by simp
qed

lemma findAllPrimary_paren:
  "(name, p) \<in> set (findAllPrimary pos skip cs) \<Longrightarrow>
   pos \<le> p \<and> p - pos < length cs \<and> cs ! (p - pos) = CHR ''(''"
proof (induction cs arbitrary: pos skip)
  case Nil
  then show ?case by simp
next
  case (Cons c cs)
  have rest: "pos \<le> p \<and> p - pos < length (c # cs) \<and> (c # cs) ! (p - pos) = CHR ''(''"
    if "(name, p) \<in> set (findAllPrimary (pos + 1) k cs)" for k
  proof -
    from Cons.IH [OF that] have "pos + 1 \<le> p" "p - (pos + 1) < length cs"
      "cs ! (p - (pos + 1)) = CHR ''(''" by simp_all
    moreover from \<open>pos + 1 \<le> p\<close> have "p - pos = Suc (p - (pos + 1))" by simp
    ultimately show ?thesis by simp
  qed
  show ?case
  proof (cases "skip > 0")
    case True
    with Cons.prems rest show ?thesis by simp
  next
    case False
    show ?thesis
    proof (cases "matchPrimary (c # cs)")
      case None
      with False Cons.prems rest show ?thesis by simp
    next
      case (Some m)
      obtain name' len where m: "m = (name', len)" by (cases m)
      from matchPrimary_paren [of "c # cs" name' len] Some m
      have l: "0 < len" "len \<le> length (c # cs)" "(c # cs) ! (len - 1) = CHR ''(''" by simp_all
      from False Some m Cons.prems
      have "(name, p) = (name', pos + len - 1) \<or> (name, p) \<in> set (findAllPrimary (pos + 1) (len - 1) cs)"
        by simp
      then show ?thesis
      proof
        assume "(name, p) = (name', pos + len - 1)"
        then have "p - pos = len - 1" "pos \<le> p" using l(1) by simp_all
        with l show ?thesis by simp
      qed (rule rest)
    qed
  qed
qed

text \<open>
  Claim C1, amended. At an opening parenthesis, \<open>extractJSONManually\<close> returns the text
  of the specification with the white space around it removed: the text between the
  opening parenthesis and the first parenthesis at which the nesting counter is back at
  zero, or the rest of the text when there is none. This closing parenthesis lies outside
  every quoted string and is not escaped, and the counter is not zero anywhere before
  it, so a parenthesis or an escaped quote inside a string does not end the argument.
  Every match of the primary grammar gives the position of an opening parenthesis.
\<close>

theorem extractJSONManually_balanced:
  "(startPos < length text \<and> text ! startPos = CHR ''('' \<longrightarrow>
      extractJSONManually text startPos = TrimSpace (argumentSpan text startPos))
   \<and> (closingParen text startPos = Some close \<longrightarrow>
        argumentSpan text startPos = slice text (startPos + 1) close \<and>
        startPos < close \<and> close < length text \<and> text ! close = CHR '')'' \<and>
        depth (scannerAfter text startPos (close - 1)) = 1 \<and>
        \<not> inStr (scannerAfter text startPos (close - 1)) \<and>
        \<not> esc (scannerAfter text startPos (close - 1)) \<and>
        (\<forall>j. startPos < j \<and> j < close \<longrightarrow> depth (scannerAfter text startPos j) \<noteq> 0))
   \<and> (closingParen text startPos = None \<longrightarrow>
        argumentSpan text startPos = drop (startPos + 1) text)
   \<and> ((name, startPos) \<in> set (findAllPrimary 0 0 text) \<longrightarrow>
        startPos < length text \<and> text ! startPos = CHR ''('')"
proof (intro conjI impI)
  assume "startPos < length text \<and> text ! startPos = CHR ''(''"
  then show "extractJSONManually text startPos = TrimSpace (argumentSpan text startPos)"
    by (simp add: extractJSONManually_argumentSpan)
next
  assume c: "closingParen text startPos = Some close"
  then show "argumentSpan text startPos = slice text (startPos + 1) close"
    by (simp add: argumentSpan_def)
  from closingParen_Some [OF c]
  show "startPos < close" "close < length text"
    "\<forall>j. startPos < j \<and> j < close \<longrightarrow> depth (scannerAfter text startPos j) \<noteq> 0"
    by simp_all
  from closingParen_outside_string [OF c]
  show "text ! close = CHR '')''" "depth (scannerAfter text startPos (close - 1)) = 1"
    "\<not> inStr (scannerAfter text startPos (close - 1))"
    "\<not> esc (scannerAfter text startPos (close - 1))"
    by simp_all
next
  assume "closingParen text startPos = None"
  then show "argumentSpan text startPos = drop (startPos + 1) text"
    by (simp add: argumentSpan_def)
next
  assume m: "(name, startPos) \<in> set (findAllPrimary 0 0 text)"
  from findAllPrimary_paren [OF m]
  show "startPos < length text" "text ! startPos = CHR ''(''" by simp_all
qed

theorem extractJSONManually_balanced_witness:
  "findAllPrimary 0 0 noteCall = [(''note'', 15)] \<and>
   15 < length noteCall \<and> noteCall ! 15 = CHR ''('' \<and>
   closingParen noteCall 15 = Some 33 \<and>
   noteCall ! 33 = CHR '')'' \<and>
   slice noteCall 16 33 = noteArgument \<and>
   extractJSONManually noteCall 15 = noteArgument"
proof -
  have m: "findAllPrimary 0 0 noteCall = [(''note'', 15)]" by code_simp
  have c: "closingParen noteCall 15 = Some 33" by code_simp
  have s: "slice noteCall 16 33 = noteArgument" "TrimSpace noteArgument = noteArgument" by code_simp+
  from m have "(''note'', 15) \<in> set (findAllPrimary 0 0 noteCall)" by simp
  with extractJSONManually_balanced [of 15 noteCall 33 "''note''"] c s
  show ?thesis using m by simp
qed

text \<open>The claim as it is written fails for \<open>TOOL_CALL: f( x )\<close>: between the parentheses
  stands " x ", and the extracted text is "x".\<close>

theorem extractJSONManually_counterexample:
  "findAllPrimary 0 0 spacedCall = [(''f'', 12)] \<and>
   closingParen spacedCall 12 = Some 16 \<and>
   slice spacedCall 13 16 = '' x '' \<and>
   extractJSONManually spacedCall 12 = ''x''"
  by code_simp

subsection \<open>From the matches to the calls\<close>

lemma HasSuffix_semicolon: "HasSuffix t '';'' \<longleftrightarrow> t \<noteq> [] \<and> last t = CHR '';''"
proof (cases "t = []")
  case True
  then show ?thesis by (simp add: HasSuffix_def)
next
  case False
  then have "t = butlast t @ [last t]" by simp
  then have "drop (length t - 1) t = [last t]"
    by (metis append_eq_conv_conj length_butlast)
  with False show ?thesis by (auto simp: HasSuffix_def Suc_le_eq)
qed

lemma fixCommonJSONIssues_eq:
  "fixCommonJSONIssues raw =
     (let t = TrimSpace raw in if t \<noteq> [] \<and> last t = CHR '';'' then TrimSpace (butlast t) else t)"
  by (simp add: fixCommonJSONIssues_def HasSuffix_semicolon butlast_conv_take Let_def)

lemma primaryLoop_map_filter:
  "primaryLoop quoteQ response i matches =
     map (\<lambda>(k, toolName, openParenPos).
            \<lparr>CallID = ''call_'' @ natDigits k, CallName = toolName, CallFunction = toolName,
             CallInput =
               callInput quoteQ (fixCommonJSONIssues (extractJSONManually response openParenPos))\<rparr>)
       (filter (\<lambda>(k, toolName, openParenPos).
                  fixCommonJSONIssues (extractJSONManually response openParenPos) \<noteq> [])
          (zip [i ..< i + length matches] matches))"
proof (induction matches arbitrary: i)
  case Nil
  show ?case by simp
next
  case (Cons m matches)
  obtain toolName openParenPos where m: "m = (toolName, openParenPos)" by (cases m)
  have "[i ..< i + length (m # matches)] = i # [Suc i ..< i + length (m # matches)]"
    by (rule upt_conv_Cons) simp
  then have "[i ..< i + length (m # matches)] = i # [i + 1 ..< i + 1 + length matches]"
    by simp
  then show ?case
    using Cons.IH [of "i + 1"] by (simp add: m Let_def del: upt_Suc)
qed

text \<open>
  Claim C2, amended. The cleaned argument text of a match is the extracted text, trimmed,
  without one trailing semicolon if there is one, and trimmed again. The parser emits a
  call for every match of the primary grammar whose cleaned argument text is not empty, in
  the order of the matches and numbered by the index of the match; the arguments of the
  call are the cleaned text itself when it is valid JSON and otherwise the object
  \<open>{"input": q}\<close>, where \<open>q\<close> is the cleaned text quoted by \<open>%q\<close>. A match whose cleaned
  argument text is empty gives no call. The fallback pattern is tried when no call was
  emitted.
\<close>

theorem primary_matches_to_calls:
  "primaryLoop quoteQ response i matches =
     map (\<lambda>(k, toolName, openParenPos).
            \<lparr>CallID = ''call_'' @ natDigits k, CallName = toolName, CallFunction = toolName,
             CallInput =
               callInput quoteQ (fixCommonJSONIssues (extractJSONManually response openParenPos))\<rparr>)
       (filter (\<lambda>(k, toolName, openParenPos).
                  fixCommonJSONIssues (extractJSONManually response openParenPos) \<noteq> [])
          (zip [i ..< i + length matches] matches))
   \<and> callInput quoteQ jsonContent =
       (if json_Valid jsonContent then jsonContent
        else ''{\"input\": '' @ quoteQ jsonContent @ ''}'')
   \<and> fixCommonJSONIssues raw =
       (let t = TrimSpace raw in
        if t \<noteq> [] \<and> last t = CHR '';'' then TrimSpace (butlast t) else t)
   \<and> ParseToolCalls quoteQ response =
       (let calls = primaryLoop quoteQ response 0 (findAllPrimary 0 0 response) in
        if calls = [] then fallbackLoop quoteQ 0 (findAllCall 0 response) else calls)"
proof (intro conjI)
  show "callInput quoteQ jsonContent =
       (if json_Valid jsonContent then jsonContent
        else ''{\"input\": '' @ quoteQ jsonContent @ ''}'')"
    by (simp add: callInput_def)
  show "ParseToolCalls quoteQ response =
       (let calls = primaryLoop quoteQ response 0 (findAllPrimary 0 0 response) in
        if calls = [] then fallbackLoop quoteQ 0 (findAllCall 0 response) else calls)"
    by (simp add: ParseToolCalls_def)
qed (rule primaryLoop_map_filter fixCommonJSONIssues_eq)+

theorem primary_matches_to_calls_witness:
  "findAllPrimary 0 0 threeCalls = [(''a'', 12), (''b'', 36), (''c'', 51)] \<and>
   json_Valid ''{\"x\": 1}'' \<and> \<not> json_Valid ''{oops'' \<and>
   fixCommonJSONIssues '' {\"x\": 1} ;;'' = ''{\"x\": 1} ;'' \<and>
   ParseToolCalls QuoteASCII threeCalls =
     [\<lparr>CallID = ''call_0'', CallName = ''a'', CallFunction = ''a'', CallInput = ''{\"x\": 1}''\<rparr>,
      \<lparr>CallID = ''call_2'', CallName = ''c'', CallFunction = ''c'',
        CallInput = ''{\"input\": \"{oops\"}''\<rparr>]"
proof -
  have m: "findAllPrimary 0 0 threeCalls = [(''a'', 12), (''b'', 36), (''c'', 51)]" by code_simp
  have v: "json_Valid ''{\"x\": 1}''" "\<not> json_Valid ''{oops''" by code_simp+
  have f: "fixCommonJSONIssues '' {\"x\": 1} ;;'' = ''{\"x\": 1} ;''" by code_simp
  note t = primary_matches_to_calls [of QuoteASCII threeCalls 0 "findAllPrimary 0 0 threeCalls"]
  have p: "primaryLoop QuoteASCII threeCalls 0 (findAllPrimary 0 0 threeCalls) =
     [\<lparr>CallID = ''call_0'', CallName = ''a'', CallFunction = ''a'', CallInput = ''{\"x\": 1}''\<rparr>,
      \<lparr>CallID = ''call_2'', CallName = ''c'', CallFunction = ''c'',
        CallInput = ''{\"input\": \"{oops\"}''\<rparr>]"
    by code_simp
  from t p have "ParseToolCalls QuoteASCII threeCalls =
     [\<lparr>CallID = ''call_0'', CallName = ''a'', CallFunction = ''a'', CallInput = ''{\"x\": 1}''\<rparr>,
      \<lparr>CallID = ''call_2'', CallName = ''c'', CallFunction = ''c'',
        CallInput = ''{\"input\": \"{oops\"}''\<rparr>]"
    by simp
  with m v f show ?thesis by simp
qed

text \<open>The claim as it is written fails for \<open>TOOL_CALL: fitbit_login()\<close>: the primary
  grammar matches, the argument text is empty, and no call is emitted.\<close>

theorem primary_match_discarded_counterexample:
  "findAllPrimary 0 0 loginCall = [(''fitbit_login'', 23)] \<and>
   extractJSONManually loginCall 23 = [] \<and>
   ParseToolCalls QuoteASCII loginCall = []"
  by code_simp

text \<open>A control character in an argument that is not valid JSON: the wrapped argument
  is not valid JSON either, as \<open>%q\<close> writes the character as \<open>\x01\<close>.\<close>

lemma wrapped_control_character:
  "map CallInput (ParseToolCalls QuoteASCII (''TOOL_CALL: f('' @ [CHR 0x01] @ '')'')) =
     [''{\"input\": \"'' @ [CHR 0x5C] @ ''x01\"}''] \<and>
   \<not> json_Valid (''{\"input\": \"'' @ [CHR 0x5C] @ ''x01\"}'')"
  by code_simp

end
